theory Spec2Isabelle
  imports Complex_Main "HOL-Library.Word"
begin

section \<open>Values shared by the gas price updater and the gas oracle\<close>

text \<open>
  Go's \<open>uint64\<close> is a 64-bit word: subtraction and multiplication wrap around, the
  order is the unsigned one, and integer division by zero is a run-time panic.
\<close>

type_synonym uint64 = "64 word"

text \<open>
  An \<open>error\<close> value. \<open>errors.New(msg)\<close> is \<open>Error msg\<close>; \<open>InvalidInput\<close> and
  \<open>InvalidConfiguration\<close> are the two failures the Pricer's contract names.
\<close>

datatype error = Error string | InvalidInput | InvalidConfiguration

text \<open>
  A \<open>float64\<close> is a finite real or one of the three non-finite values. The conversion
  \<open>float64(n)\<close> of an unsigned 64-bit integer rounds to the nearest value with a 53-bit
  significand, ties to even: \<open>float64_shift n\<close> is the number of low bits that do not
  fit (0 below \<open>2^53\<close>, at most 11 below \<open>2^64\<close>).
\<close>

datatype float64 = Finite real | PosInf | NegInf | NaN

definition float64_shift :: "nat \<Rightarrow> nat" where
  "float64_shift n = length (filter (\<lambda>k. 2 ^ (53 + k) \<le> n) [0..<11])"

definition float64_of_nat :: "nat \<Rightarrow> real" where
  "float64_of_nat n =
     (let e = float64_shift n;
          q = n div 2 ^ e;
          r = n mod 2 ^ e;
          q' = (if 2 * r > 2 ^ e \<or> (2 * r = 2 ^ e \<and> odd q) then q + 1 else q)
      in real (q' * 2 ^ e))"

section \<open>The oracle's configuration (go/gas-oracle/oracle/config.go)\<close>

text \<open>
  An address is 20 bytes. A private key is kept abstract as a number; the three functions
  of the Ethereum libraries that \<open>NewConfig\<close> and \<open>Start\<close> call
  (\<open>common.HexToAddress\<close>, \<open>crypto.HexToECDSA\<close>, \<open>crypto.PubkeyToAddress\<close>) are
  parameters of the model. A \<open>*big.Int\<close> is a natural number, \<open>None\<close> when \<open>nil\<close>.
  The \<open>float64\<close> options of the configuration are read as reals.
\<close>

type_synonym address = "160 word"
type_synonym PrivateKey = nat

record Config =
  chainID :: "nat option"
  ethereumHttpUrl :: string
  gasPriceOracleAddress :: address
  privateKey :: "PrivateKey option"
  gasPrice :: "nat option"
  floorPrice :: real
  targetGasPerSecond :: real
  maxPercentChangePerEpoch :: real
  averageBlockGasLimitPerEpoch :: real
  epochLengthSeconds :: real
  significantFactor :: real

text \<open>
  The command line as \<open>NewConfig\<close> reads it: one field per flag, \<open>Some v\<close> when
  \<open>GlobalIsSet\<close> holds for the flag and its value is \<open>v\<close>.
\<close>

record Context =
  ethereum_http_url :: "string option"
  chain_id :: "uint64 option"
  gas_price_oracle_address :: "string option"
  private_key :: "string option"
  transaction_gas_price :: "uint64 option"
  floor_price :: "real option"
  target_gas_per_second :: "real option"
  max_percent_change_per_epoch :: "real option"
  average_block_gas_limit_per_epoch :: "real option"
  epoch_length_seconds :: "real option"
  significant_factor :: "real option"

text \<open>
  \<open>log.Crit\<close> writes its message and ends the process: \<open>Crit msg option\<close> is that
  exit, with the name of the option it reports.
\<close>

datatype fatal = Crit string string

definition NewConfig ::
    "(string \<Rightarrow> address) \<Rightarrow> (string \<Rightarrow> error + PrivateKey) \<Rightarrow> Context \<Rightarrow> fatal + Config" where
  "NewConfig HexToAddress HexToECDSA ctx =
     (let cfg0 = \<lparr>chainID = None, ethereumHttpUrl = [],
                  gasPriceOracleAddress = HexToAddress ''0x420000000000000000000000000000000000000F'',
                  privateKey = None, gasPrice = None, floorPrice = 0, targetGasPerSecond = 0,
                  maxPercentChangePerEpoch = 0, averageBlockGasLimitPerEpoch = 0,
                  epochLengthSeconds = 0, significantFactor = 0.05\<rparr>;
          cfg1 = (case ethereum_http_url ctx of
                    Some url \<Rightarrow> cfg0\<lparr>ethereumHttpUrl := url\<rparr>
                  | None \<Rightarrow> cfg0);
          cfg2 = (case chain_id ctx of
                    Some chainID' \<Rightarrow> cfg1\<lparr>chainID := Some (unat chainID')\<rparr>
                  | None \<Rightarrow> cfg1);
          cfg3 = (case gas_price_oracle_address ctx of
                    Some addr \<Rightarrow> cfg2\<lparr>gasPriceOracleAddress := HexToAddress addr\<rparr>
                  | None \<Rightarrow> cfg2);
          cfg4 = (case private_key ctx of
                    Some hex \<Rightarrow>
                      let hex' = (if take 2 hex = ''0x'' then drop 2 hex else hex)
                      in (case HexToECDSA hex' of
                            Inl err \<Rightarrow> cfg3\<lparr>privateKey := None\<rparr>
                          | Inr key \<Rightarrow> cfg3\<lparr>privateKey := Some key\<rparr>)
                  | None \<Rightarrow> cfg3);
          cfg5 = (case transaction_gas_price ctx of
                    Some gasPrice' \<Rightarrow> cfg4\<lparr>gasPrice := Some (unat gasPrice')\<rparr>
                  | None \<Rightarrow> cfg4);
          cfg6 = (case floor_price ctx of
                    Some v \<Rightarrow> cfg5\<lparr>floorPrice := v\<rparr>
                  | None \<Rightarrow> cfg5)
      in case target_gas_per_second ctx of
           None \<Rightarrow> Inl (Crit ''Missing config option'' ''target-gas-per-second'')
         | Some target \<Rightarrow>
        (case max_percent_change_per_epoch ctx of
           None \<Rightarrow> Inl (Crit ''Missing config option'' ''max-percent-change-per-epoch'')
         | Some maxChange \<Rightarrow>
        (case average_block_gas_limit_per_epoch ctx of
           None \<Rightarrow> Inl (Crit ''Missing config option'' ''average-block-gas-limit-per-epoch'')
         | Some averageLimit \<Rightarrow>
        (case epoch_length_seconds ctx of
           None \<Rightarrow> Inl (Crit ''Missing config option'' ''epoch-length-seconds'')
         | Some epochLength \<Rightarrow>
             let cfg7 = cfg6\<lparr>targetGasPerSecond := target, maxPercentChangePerEpoch := maxChange,
                              averageBlockGasLimitPerEpoch := averageLimit,
                              epochLengthSeconds := epochLength\<rparr>
             in Inr (case significant_factor ctx of
                       Some v \<Rightarrow> cfg7\<lparr>significantFactor := v\<rparr>
                     | None \<Rightarrow> cfg7)))))"

section \<open>The Pricer\<close>

text \<open>
  The state of a \<open>GasPricer\<close>. Its fourth field, the accessor of the target rate, is a
  callback polled at every epoch completion: what it returns at a call is an argument of
  \<open>CompleteEpoch\<close> below.
\<close>

record GasPricer =
  curPrice :: real
  floorPrice :: real
  maxPercentChangePerEpoch :: real

definition clampRatio :: "real \<Rightarrow> real \<Rightarrow> real \<Rightarrow> real" where
  "clampRatio lo hi x = max lo (min hi x)"

text \<open>
  Modelled from the spec: \<open>GasPricer.CompleteEpoch\<close>, whose file is not among the
  sources (\<open>UpdateGasPrice\<close> calls it). The six steps of the Pricer's contract, over the
  reals: a negative or non-finite observed rate is \<open>InvalidInput\<close>, a target that is not
  positive is \<open>InvalidConfiguration\<close>, the ratio of observed rate to target is clamped to
  \<open>[1 - maxPercentChangePerEpoch, 1 + maxPercentChangePerEpoch]\<close>, the candidate is the
  current price times the clamped ratio, the floor is applied, and the new price is
  committed. A failed call returns no new state: the caller keeps the old one.
\<close>

definition CompleteEpoch :: "real \<Rightarrow> GasPricer \<Rightarrow> float64 \<Rightarrow> error + (real \<times> GasPricer)" where
  "CompleteEpoch target p observedGasPerSecond =
     (case observedGasPerSecond of
        Finite x \<Rightarrow>
          if x < 0 then Inl InvalidInput
          else if target \<le> 0 then Inl InvalidConfiguration
          else
            let ratio = x / target;
                clampedRatio = clampRatio (1 - maxPercentChangePerEpoch p)
                                 (1 + maxPercentChangePerEpoch p) ratio;
                candidate = curPrice p * clampedRatio;
                newPrice = max candidate (floorPrice p)
            in Inr (newPrice, p\<lparr>curPrice := newPrice\<rparr>)
      | PosInf \<Rightarrow> Inl InvalidInput
      | NegInf \<Rightarrow> Inl InvalidInput
      | NaN \<Rightarrow> Inl InvalidInput)"


text \<open>
  The state of a \<open>GasPriceOracle\<close>: its pricer and its configuration. The context, the
  stop channel, the contract binding and the backend are handles to the environment;
  the struct's own \<open>chainID\<close> repeats the configuration's and is read by a log line
  only.
\<close>

record GasPriceOracle =
  gasPricer :: GasPricer
  config :: Config

section \<open>The gas price updater (l2geth/rollup/gas\_price\_updater.go)\<close>

text \<open>
  \<open>GasPriceUpdater\<close> holds the pricer, the epoch's starting block number (the
  checkpoint) and the two configured constants. Its two function-typed fields,
  \<open>getLatestBlockNumberFn\<close> and \<open>updateL2GasPriceFn\<close>, are the environment: what they
  answer at one call of \<open>UpdateGasPrice\<close> is the \<open>world\<close> of that call, together with
  the answer of the pricer's target accessor.
\<close>

record GasPriceUpdater =
  gasPricer :: GasPricer
  epochStartBlockNumber :: uint64
  averageBlockGasLimit :: uint64
  epochLengthSeconds :: uint64

record world =
  getLatestBlockNumberFn :: "error + uint64"
  getTargetGasPerSecond :: real
  updateL2GasPriceFn :: "real \<Rightarrow> error option"

text \<open>
  \<open>GetAverageGasPerSecond\<close>: the whole expression is evaluated in \<open>uint64\<close> and only
  the result is converted. \<open>None\<close> is the panic of an integer division by zero.
\<close>

definition GetAverageGasPerSecond :: "uint64 \<Rightarrow> uint64 \<Rightarrow> uint64 \<Rightarrow> uint64 \<Rightarrow> float64 option" where
  "GetAverageGasPerSecond epochStart latestBlockNumber epochLength averageLimit =
     (if epochLength = 0 then None
      else Some (Finite (float64_of_nat (unat
        ((latestBlockNumber - epochStart) * averageLimit div epochLength)))))"

text \<open>
  \<open>NewGasPriceUpdater\<close>: the pricer comes as a pointer (\<open>None\<close> is \<open>nil\<close>) and is
  dereferenced only once the three checks have passed; \<open>None\<close> as a result is the panic
  of that dereference.
\<close>

definition NewGasPriceUpdater ::
    "GasPricer option \<Rightarrow> uint64 \<Rightarrow> uint64 \<Rightarrow> uint64 \<Rightarrow> (error + GasPriceUpdater) option" where
  "NewGasPriceUpdater pricer epochStart averageLimit epochLength =
     (if epochStart < 0 then
        Some (Inl (Error ''epochStartBlockNumber must be non-negative.''))
      else if averageLimit < 1 then
        Some (Inl (Error ''averageBlockGasLimit cannot be less than 1 gas.''))
      else if epochLength < 1 then
        Some (Inl (Error ''epochLengthSeconds cannot be less than 1 second.''))
      else
        (case pricer of
           None \<Rightarrow> None
         | Some p \<Rightarrow>
             Some (Inr \<lparr>gasPricer = p, epochStartBlockNumber = epochStart,
                        averageBlockGasLimit = averageLimit,
                        epochLengthSeconds = epochLength\<rparr>)))"

definition errOutOfOrderEpoch :: error where
  "errOutOfOrderEpoch = Error ''Latest block number less than the last epoch's block number.''"

text \<open>
  \<open>UpdateGasPrice\<close> returns the error (or \<open>None\<close> for \<open>nil\<close>) and the updater after
  the call; the outer \<open>None\<close> is a panic.
\<close>

definition UpdateGasPrice :: "world \<Rightarrow> GasPriceUpdater \<Rightarrow> (error option \<times> GasPriceUpdater) option" where
  "UpdateGasPrice w g =
     (case getLatestBlockNumberFn w of
        Inl err \<Rightarrow> Some (Some err, g)
      | Inr latestBlockNumber \<Rightarrow>
          if latestBlockNumber < epochStartBlockNumber g then Some (Some errOutOfOrderEpoch, g)
          else
            (case GetAverageGasPerSecond (epochStartBlockNumber g) latestBlockNumber
                    (epochLengthSeconds g) (averageBlockGasLimit g) of
               None \<Rightarrow> None
             | Some averageGasPerSecond \<Rightarrow>
                 (case CompleteEpoch (getTargetGasPerSecond w) (gasPricer g) averageGasPerSecond of
                    Inl err \<Rightarrow> Some (Some err, g)
                  | Inr (newPrice, p') \<Rightarrow>
                      Some (updateL2GasPriceFn w (curPrice p'),
                            g\<lparr>gasPricer := p', epochStartBlockNumber := latestBlockNumber\<rparr>))))"

text \<open>
  Successive calls, one world per call. \<open>UpdateGasPrice_checkpoints\<close> lists the
  checkpoint after each call, up to a panic, and \<open>UpdateGasPrice_calls\<close> is the updater
  after all of them (\<open>None\<close> when one panicked).
\<close>

fun UpdateGasPrice_checkpoints :: "world list \<Rightarrow> GasPriceUpdater \<Rightarrow> uint64 list" where
  "UpdateGasPrice_checkpoints [] g = []"
| "UpdateGasPrice_checkpoints (w # ws) g =
     (case UpdateGasPrice w g of
        None \<Rightarrow> []
      | Some (err, g') \<Rightarrow> epochStartBlockNumber g' # UpdateGasPrice_checkpoints ws g')"

fun UpdateGasPrice_calls :: "world list \<Rightarrow> GasPriceUpdater \<Rightarrow> GasPriceUpdater option" where
  "UpdateGasPrice_calls [] g = Some g"
| "UpdateGasPrice_calls (w # ws) g =
     (case UpdateGasPrice w g of
        None \<Rightarrow> None
      | Some (err, g') \<Rightarrow> UpdateGasPrice_calls ws g')"

section \<open>The significance gate\<close>




section \<open>The oracle process (go/gas-oracle/oracle/gas\_price\_oracle.go)\<close>








text \<open>
  The \<open>for\<close> loop of \<open>Loop\<close>, from the point where the updater exists. Each pass of
  the loop blocks in \<open>select\<close> until the timer fires or the context is done; an event is
  one of the two, a timer event carrying what \<open>contract.GasPrice\<close> answers and the world
  of the \<open>UpdateGasPrice\<close> call. The state is the updater, whether the \<open>stop\<close> channel
  has been closed, and the log (level and message of each entry). Closing a closed
  channel panics: \<open>None\<close>. The loop has no \<open>break\<close> and no \<open>return\<close>: after an event
  it selects the next one.
\<close>

datatype log_entry = LogDebug string | LogInfo string | LogError string

datatype loop_event = TimerFired "error + nat" world | CtxDone

record loop_state =
  gasPriceUpdater :: GasPriceUpdater
  stopClosed :: bool
  logged :: "log_entry list"

definition Loop_select :: "loop_event \<Rightarrow> loop_state \<Rightarrow> loop_state option" where
  "Loop_select ev s =
     (case ev of
        TimerFired gasPriceCall w \<Rightarrow>
          let s1 = s\<lparr>logged := logged s @ [LogDebug ''polling'']\<rparr>
          in (case gasPriceCall of
                Inl err \<Rightarrow> Some (s1\<lparr>logged := logged s1 @ [LogError ''cannot get gas price'']\<rparr>)
              | Inr l2GasPrice \<Rightarrow>
                  (case UpdateGasPrice w (gasPriceUpdater s1) of
                     None \<Rightarrow> None
                   | Some (Some err, g') \<Rightarrow>
                       Some (s1\<lparr>gasPriceUpdater := g',
                                logged := logged s1 @ [LogError ''cannot update gas price'']\<rparr>)
                   | Some (None, g') \<Rightarrow>
                       Some (s1\<lparr>gasPriceUpdater := g',
                                logged := logged s1 @ [LogInfo ''Updated gas price'']\<rparr>)))
      | CtxDone \<Rightarrow> if stopClosed s then None else Some (s\<lparr>stopClosed := True\<rparr>))"

fun Loop :: "loop_event list \<Rightarrow> loop_state \<Rightarrow> loop_state option" where
  "Loop [] s = Some s"
| "Loop (ev # evs) s =
     (case Loop_select ev s of
        None \<Rightarrow> None
      | Some s' \<Rightarrow> Loop evs s')"

section \<open>Properties of the rate computation\<close>

lemma float64_shift_small: "n < 2 ^ 53 \<Longrightarrow> float64_shift n = 0"
proof -
  assume small: "n < 2 ^ 53"
  have "\<not> 2 ^ (53 + k) \<le> n" for k
  proof -
    have "(2::nat) ^ 53 \<le> 2 ^ (53 + k)"
      by (rule power_increasing) simp_all
    with small show ?thesis by linarith
  qed
  then show ?thesis
    by (simp add: float64_shift_def filter_empty_conv)
qed

lemma float64_of_nat_exact: "n < 2 ^ 53 \<Longrightarrow> float64_of_nat n = real n"
  by (simp add: float64_of_nat_def float64_shift_small)

lemma unat_quotient:
  fixes s l len avg :: uint64
  assumes "s \<le> l"
  shows "unat ((l - s) * avg div len) = ((unat l - unat s) * unat avg mod 2 ^ 64) div unat len"
proof -
  have "unat (l - s) = unat l - unat s"
    using assms by (simp add: unat_sub)
  then have "unat ((l - s) * avg) = (unat l - unat s) * unat avg mod 2 ^ 64"
    by (simp add: unat_word_ariths)
  then show ?thesis
    by (simp add: unat_div)
qed

text \<open>
  C1 (as amended). For \<open>epochLengthSeconds \<ge> 1\<close>, \<open>averageBlockGasLimit \<ge> 1\<close> and
  \<open>latestBlockNumber \<ge> epochStartBlockNumber\<close>, \<open>GetAverageGasPerSecond\<close> returns the
  \<open>float64\<close> nearest to the integer quotient of the product
  \<open>(latestBlockNumber - epochStartBlockNumber) * averageBlockGasLimit\<close>, reduced modulo
  \<open>2^64\<close>, by \<open>epochLengthSeconds\<close>. When the product is below \<open>2^64\<close> and the
  quotient below \<open>2^53\<close>, that is the floor of the real-valued quotient.
\<close>

theorem GetAverageGasPerSecond_floor_quotient:
  fixes epochStart latestBlockNumber epochLength averageLimit :: uint64
  assumes "1 \<le> epochLength" and "1 \<le> averageLimit" and "epochStart \<le> latestBlockNumber"
  shows "GetAverageGasPerSecond epochStart latestBlockNumber epochLength averageLimit =
           Some (Finite (float64_of_nat
             (((unat latestBlockNumber - unat epochStart) * unat averageLimit mod 2 ^ 64)
                div unat epochLength)))
         \<and> ((unat latestBlockNumber - unat epochStart) * unat averageLimit < 2 ^ 64 \<and>
            (unat latestBlockNumber - unat epochStart) * unat averageLimit div unat epochLength < 2 ^ 53
            \<longrightarrow> GetAverageGasPerSecond epochStart latestBlockNumber epochLength averageLimit =
                  Some (Finite (of_int \<lfloor>real (unat latestBlockNumber - unat epochStart)
                     * real (unat averageLimit) / real (unat epochLength)\<rfloor>)))"
proof -
  let ?p = "(unat latestBlockNumber - unat epochStart) * unat averageLimit"
  have nz: "epochLength \<noteq> 0"
    using assms(1) by auto
  have general: "GetAverageGasPerSecond epochStart latestBlockNumber epochLength averageLimit =
      Some (Finite (float64_of_nat ((?p mod 2 ^ 64) div unat epochLength)))"
    using nz assms(3) by (simp add: GetAverageGasPerSecond_def unat_quotient)
  have special: "GetAverageGasPerSecond epochStart latestBlockNumber epochLength averageLimit =
      Some (Finite (of_int \<lfloor>real (unat latestBlockNumber - unat epochStart)
                     * real (unat averageLimit) / real (unat epochLength)\<rfloor>))"
    if fits: "?p < 2 ^ 64" and exact: "?p div unat epochLength < 2 ^ 53"
  proof -
    have "float64_of_nat ((?p mod 2 ^ 64) div unat epochLength) = real (?p div unat epochLength)"
      using fits exact by (simp add: float64_of_nat_exact)
    also have "\<dots> = of_int \<lfloor>real ?p / real (unat epochLength)\<rfloor>"
      using floor_divide_of_nat_eq [of ?p "unat epochLength", where ?'a = real] by simp
    finally show ?thesis
      using general by simp
  qed
  show ?thesis
    using general special by blast
qed

theorem GetAverageGasPerSecond_floor_quotient_witness:
  "(1::uint64) \<le> 10 \<and> (1::uint64) \<le> 11000000 \<and> (0::uint64) \<le> 10 \<and>
   GetAverageGasPerSecond 0 10 10 11000000 = Some (Finite 11000000)"
  using GetAverageGasPerSecond_floor_quotient [of 10 11000000 0 10]
  by (simp add: float64_of_nat_exact)

text \<open>
  C1 as stated fails: one block in an epoch of two seconds with a limit of one gas gives
  0, and the real-valued quotient is one half.
\<close>

theorem GetAverageGasPerSecond_real_quotient_counterexample:
  "(1::uint64) \<le> 2 \<and> (1::uint64) \<le> 1 \<and> (0::uint64) \<le> 1 \<and>
   GetAverageGasPerSecond 0 1 2 1 \<noteq>
     Some (Finite (real (unat (1::uint64) - unat (0::uint64)) * real (unat (1::uint64))
                     / real (unat (2::uint64))))"
  by (simp add: GetAverageGasPerSecond_def float64_of_nat_exact)

section \<open>Properties of the gas price updater\<close>

lemma UpdateGasPrice_cases:
  assumes "UpdateGasPrice w g = Some (err, g')"
  shows "g' = g \<or>
         (\<exists>latest p'. getLatestBlockNumberFn w = Inr latest \<and> epochStartBlockNumber g \<le> latest \<and>
            g' = g\<lparr>gasPricer := p', epochStartBlockNumber := latest\<rparr>)"
  using assms
  by (auto simp: UpdateGasPrice_def split: sum.splits if_splits option.splits prod.splits)

lemma UpdateGasPrice_checkpoint_mono:
  assumes "UpdateGasPrice w g = Some (err, g')"
  shows "epochStartBlockNumber g \<le> epochStartBlockNumber g'"
  using UpdateGasPrice_cases [OF assms] by auto

lemma UpdateGasPrice_epochLength:
  assumes "UpdateGasPrice w g = Some (err, g')"
  shows "epochLengthSeconds g' = epochLengthSeconds g"
  using UpdateGasPrice_cases [OF assms] by auto

lemma UpdateGasPrice_no_panic:
  assumes "epochLengthSeconds g \<noteq> 0"
  shows "UpdateGasPrice w g \<noteq> None"
  using assms
  by (auto simp: UpdateGasPrice_def GetAverageGasPerSecond_def split: sum.splits prod.splits)

lemma UpdateGasPrice_calls_no_panic:
  "epochLengthSeconds g \<noteq> 0 \<Longrightarrow> UpdateGasPrice_calls ws g \<noteq> None"
proof (induction ws arbitrary: g)
  case Nil
  show ?case by simp
next
  case (Cons w ws)
  from UpdateGasPrice_no_panic [OF Cons.prems, of w]
  obtain err g' where step: "UpdateGasPrice w g = Some (err, g')"
    by (cases "UpdateGasPrice w g") auto
  have "epochLengthSeconds g' \<noteq> 0"
    using UpdateGasPrice_epochLength [OF step] Cons.prems by simp
  then show ?case
    using Cons.IH [of g'] step by simp
qed

lemma UpdateGasPrice_checkpoints_sorted:
  "sorted (UpdateGasPrice_checkpoints ws g) \<and>
   (\<forall>c \<in> set (UpdateGasPrice_checkpoints ws g). epochStartBlockNumber g \<le> c)"
proof (induction ws arbitrary: g)
  case Nil
  show ?case by simp
next
  case (Cons w ws)
  show ?case
  proof (cases "UpdateGasPrice w g")
    case None
    then show ?thesis by simp
  next
    case (Some r)
    obtain err g' where r: "r = (err, g')" by (cases r)
    have mono: "epochStartBlockNumber g \<le> epochStartBlockNumber g'"
      using UpdateGasPrice_checkpoint_mono Some r by blast
    have ih: "sorted (UpdateGasPrice_checkpoints ws g')"
      "\<forall>c \<in> set (UpdateGasPrice_checkpoints ws g'). epochStartBlockNumber g' \<le> c"
      using Cons.IH [of g'] by simp_all
    from ih(2) mono have "\<forall>c \<in> set (UpdateGasPrice_checkpoints ws g'). epochStartBlockNumber g \<le> c"
      by (meson order_trans)
    then show ?thesis
      using Some r mono ih by simp
  qed
qed

text \<open>
  C2. If \<open>getLatestBlockNumberFn\<close> answers a block number strictly below the stored
  checkpoint, \<open>UpdateGasPrice\<close> returns an error and leaves the updater, and so its
  checkpoint, as it was: the next call starts from the same block.
\<close>

theorem UpdateGasPrice_out_of_order:
  assumes "getLatestBlockNumberFn w = Inr latestBlockNumber"
    and "latestBlockNumber < epochStartBlockNumber g"
  shows "UpdateGasPrice w g = Some (Some errOutOfOrderEpoch, g)"
  using assms by (simp add: UpdateGasPrice_def)

theorem UpdateGasPrice_out_of_order_witness:
  "getLatestBlockNumberFn \<lparr>getLatestBlockNumberFn = Inr 5, getTargetGasPerSecond = 100,
      updateL2GasPriceFn = (\<lambda>price. None)\<rparr> = Inr (5::uint64) \<and>
   (5::uint64) < epochStartBlockNumber
     \<lparr>gasPricer = \<lparr>curPrice = 10, floorPrice = 0, maxPercentChangePerEpoch = 1 / 10\<rparr>,
      epochStartBlockNumber = 7, averageBlockGasLimit = 11000000, epochLengthSeconds = 10\<rparr> \<and>
   UpdateGasPrice
     \<lparr>getLatestBlockNumberFn = Inr 5, getTargetGasPerSecond = 100,
      updateL2GasPriceFn = (\<lambda>price. None)\<rparr>
     \<lparr>gasPricer = \<lparr>curPrice = 10, floorPrice = 0, maxPercentChangePerEpoch = 1 / 10\<rparr>,
      epochStartBlockNumber = 7, averageBlockGasLimit = 11000000, epochLengthSeconds = 10\<rparr>
   = Some (Some errOutOfOrderEpoch,
     \<lparr>gasPricer = \<lparr>curPrice = 10, floorPrice = 0, maxPercentChangePerEpoch = 1 / 10\<rparr>,
      epochStartBlockNumber = 7, averageBlockGasLimit = 11000000, epochLengthSeconds = 10\<rparr>)"
  using UpdateGasPrice_out_of_order
    [of "\<lparr>getLatestBlockNumberFn = Inr 5, getTargetGasPerSecond = 100,
          updateL2GasPriceFn = (\<lambda>price. None)\<rparr>" 5
        "\<lparr>gasPricer = \<lparr>curPrice = 10, floorPrice = 0, maxPercentChangePerEpoch = 1 / 10\<rparr>,
          epochStartBlockNumber = 7, averageBlockGasLimit = 11000000, epochLengthSeconds = 10\<rparr>"]
  by simp

text \<open>
  C3. When \<open>getLatestBlockNumberFn\<close> answers a block number at or above the checkpoint
  and \<open>CompleteEpoch\<close> succeeds, the checkpoint after the call is that block number,
  whatever \<open>updateL2GasPriceFn\<close> does: the error of the call is the write's own answer,
  and the updater after the call does not depend on it.
\<close>

theorem UpdateGasPrice_advances_checkpoint:
  assumes "getLatestBlockNumberFn w = Inr latestBlockNumber"
    and "epochStartBlockNumber g \<le> latestBlockNumber"
    and "GetAverageGasPerSecond (epochStartBlockNumber g) latestBlockNumber
           (epochLengthSeconds g) (averageBlockGasLimit g) = Some averageGasPerSecond"
    and "CompleteEpoch (getTargetGasPerSecond w) (gasPricer g) averageGasPerSecond = Inr (newPrice, p')"
  shows "UpdateGasPrice (w\<lparr>updateL2GasPriceFn := update\<rparr>) g =
           Some (update (curPrice p'), g\<lparr>gasPricer := p', epochStartBlockNumber := latestBlockNumber\<rparr>)
         \<and> epochStartBlockNumber (g\<lparr>gasPricer := p', epochStartBlockNumber := latestBlockNumber\<rparr>)
             = latestBlockNumber"
  using assms by (simp add: UpdateGasPrice_def leD)


theorem UpdateGasPrice_advances_checkpoint_witness:
  "getLatestBlockNumberFn \<lparr>getLatestBlockNumberFn = Inr 17, getTargetGasPerSecond = 100,
      updateL2GasPriceFn = (\<lambda>price. None)\<rparr> = Inr (17::uint64) \<and>
   epochStartBlockNumber
     \<lparr>gasPricer = \<lparr>curPrice = 10, floorPrice = 0, maxPercentChangePerEpoch = 1 / 10\<rparr>,
      epochStartBlockNumber = 7, averageBlockGasLimit = 20, epochLengthSeconds = 1\<rparr> \<le> (17::uint64) \<and>
   GetAverageGasPerSecond 7 17 1 20 = Some (Finite 200) \<and>
   CompleteEpoch 100 \<lparr>curPrice = 10, floorPrice = 0, maxPercentChangePerEpoch = 1 / 10\<rparr> (Finite 200)
     = Inr (11, \<lparr>curPrice = 11, floorPrice = 0, maxPercentChangePerEpoch = 1 / 10\<rparr>) \<and>
   UpdateGasPrice
     \<lparr>getLatestBlockNumberFn = Inr 17, getTargetGasPerSecond = 100,
      updateL2GasPriceFn = (\<lambda>price. Some (Error ''write failed''))\<rparr>
     \<lparr>gasPricer = \<lparr>curPrice = 10, floorPrice = 0, maxPercentChangePerEpoch = 1 / 10\<rparr>,
      epochStartBlockNumber = 7, averageBlockGasLimit = 20, epochLengthSeconds = 1\<rparr>
   = Some (Some (Error ''write failed''),
     \<lparr>gasPricer = \<lparr>curPrice = 11, floorPrice = 0, maxPercentChangePerEpoch = 1 / 10\<rparr>,
      epochStartBlockNumber = 17, averageBlockGasLimit = 20, epochLengthSeconds = 1\<rparr>)"
proof -
  let ?w = "\<lparr>getLatestBlockNumberFn = Inr (17::uint64), getTargetGasPerSecond = 100,
      updateL2GasPriceFn = (\<lambda>price. None)\<rparr>"
  let ?g = "\<lparr>gasPricer = \<lparr>curPrice = 10, floorPrice = 0, maxPercentChangePerEpoch = 1 / 10\<rparr>,
      epochStartBlockNumber = 7, averageBlockGasLimit = 20, epochLengthSeconds = 1\<rparr>"
  have latest: "getLatestBlockNumberFn ?w = Inr 17"
    by simp
  have above: "epochStartBlockNumber ?g \<le> 17"
    by simp
  have rate: "GetAverageGasPerSecond (epochStartBlockNumber ?g) 17 (epochLengthSeconds ?g)
      (averageBlockGasLimit ?g) = Some (Finite 200)"
    by (simp add: GetAverageGasPerSecond_def float64_of_nat_exact)
  have price: "CompleteEpoch (getTargetGasPerSecond ?w) (gasPricer ?g) (Finite 200)
      = Inr (11, \<lparr>curPrice = 11, floorPrice = 0, maxPercentChangePerEpoch = 1 / 10\<rparr>)"
    by (simp add: CompleteEpoch_def clampRatio_def)
  show ?thesis
    using UpdateGasPrice_advances_checkpoint
      [OF latest above rate price, of "\<lambda>price. Some (Error ''write failed'')"]
      latest above rate price
    by simp
qed

text \<open>
  C4. Over any sequence of \<open>UpdateGasPrice\<close> calls the checkpoint never decreases: the
  starting checkpoint followed by the checkpoint after each call is a sorted list, no
  single call, failed or not, lowers it, and a block number below the checkpoint is
  answered with an error and an unchanged updater.
\<close>

theorem epochStartBlockNumber_monotone:
  "sorted (epochStartBlockNumber g # UpdateGasPrice_checkpoints ws g) \<and>
   (\<forall>w err g'. UpdateGasPrice w g = Some (err, g') \<longrightarrow>
      epochStartBlockNumber g \<le> epochStartBlockNumber g') \<and>
   (\<forall>w latestBlockNumber.
      getLatestBlockNumberFn w = Inr latestBlockNumber \<and> latestBlockNumber < epochStartBlockNumber g \<longrightarrow>
      UpdateGasPrice w g = Some (Some errOutOfOrderEpoch, g))"
proof -
  have "sorted (epochStartBlockNumber g # UpdateGasPrice_checkpoints ws g)"
    using UpdateGasPrice_checkpoints_sorted [of ws g] by simp
  moreover have "\<forall>w err g'. UpdateGasPrice w g = Some (err, g') \<longrightarrow>
      epochStartBlockNumber g \<le> epochStartBlockNumber g'"
    using UpdateGasPrice_checkpoint_mono by blast
  moreover have "\<forall>w latestBlockNumber.
      getLatestBlockNumberFn w = Inr latestBlockNumber \<and> latestBlockNumber < epochStartBlockNumber g \<longrightarrow>
      UpdateGasPrice w g = Some (Some errOutOfOrderEpoch, g)"
    by (simp add: UpdateGasPrice_def)
  ultimately show ?thesis by blast
qed

theorem epochStartBlockNumber_monotone_witness:
  "UpdateGasPrice_checkpoints
     [\<lparr>getLatestBlockNumberFn = Inr 17, getTargetGasPerSecond = 100, updateL2GasPriceFn = (\<lambda>price. None)\<rparr>,
      \<lparr>getLatestBlockNumberFn = Inr 5, getTargetGasPerSecond = 100, updateL2GasPriceFn = (\<lambda>price. None)\<rparr>,
      \<lparr>getLatestBlockNumberFn = Inl (Error ''timeout''), getTargetGasPerSecond = 100,
         updateL2GasPriceFn = (\<lambda>price. None)\<rparr>,
      \<lparr>getLatestBlockNumberFn = Inr 18, getTargetGasPerSecond = 0, updateL2GasPriceFn = (\<lambda>price. None)\<rparr>,
      \<lparr>getLatestBlockNumberFn = Inr 19, getTargetGasPerSecond = 100, updateL2GasPriceFn = (\<lambda>price. None)\<rparr>]
     \<lparr>gasPricer = \<lparr>curPrice = 10, floorPrice = 0, maxPercentChangePerEpoch = 1 / 10\<rparr>,
      epochStartBlockNumber = 7, averageBlockGasLimit = 20, epochLengthSeconds = 1\<rparr>
   = [17, 17, 17, 17, 19] \<and>
   sorted [7, 17, 17, 17, 17, 19 :: uint64]"
proof -
  let ?ws = "[\<lparr>getLatestBlockNumberFn = Inr (17::uint64), getTargetGasPerSecond = 100, updateL2GasPriceFn = (\<lambda>price. None)\<rparr>,
      \<lparr>getLatestBlockNumberFn = Inr 5, getTargetGasPerSecond = 100, updateL2GasPriceFn = (\<lambda>price. None)\<rparr>,
      \<lparr>getLatestBlockNumberFn = Inl (Error ''timeout''), getTargetGasPerSecond = 100,
         updateL2GasPriceFn = (\<lambda>price. None)\<rparr>,
      \<lparr>getLatestBlockNumberFn = Inr 18, getTargetGasPerSecond = 0, updateL2GasPriceFn = (\<lambda>price. None)\<rparr>,
      \<lparr>getLatestBlockNumberFn = Inr 19, getTargetGasPerSecond = 100, updateL2GasPriceFn = (\<lambda>price. None)\<rparr>]"
  let ?g = "\<lparr>gasPricer = \<lparr>curPrice = 10, floorPrice = 0, maxPercentChangePerEpoch = 1 / 10\<rparr>,
      epochStartBlockNumber = 7, averageBlockGasLimit = 20, epochLengthSeconds = 1\<rparr>"
  have run: "UpdateGasPrice_checkpoints ?ws ?g = [17, 17, 17, 17, 19]"
    by (simp add: UpdateGasPrice_def GetAverageGasPerSecond_def float64_of_nat_exact
        CompleteEpoch_def clampRatio_def Let_def)
  show ?thesis
    using epochStartBlockNumber_monotone [of ?g ?ws] run by simp
qed

text \<open>
  C10. \<open>NewGasPriceUpdater\<close> returns an error exactly when \<open>averageBlockGasLimit < 1\<close>
  or \<open>epochLengthSeconds < 1\<close>; the check of the unsigned \<open>epochStartBlockNumber\<close>
  never fires. An updater it returns has \<open>epochLengthSeconds \<ge> 1\<close>, no call of
  \<open>UpdateGasPrice\<close> changes that, and so no sequence of calls on it ever panics with a
  division by zero in \<open>GetAverageGasPerSecond\<close>.
\<close>

theorem NewGasPriceUpdater_guards_division:
  "((\<exists>err. NewGasPriceUpdater pricer epochStart averageLimit epochLength = Some (Inl err))
      \<longleftrightarrow> averageLimit < 1 \<or> epochLength < 1) \<and>
   NewGasPriceUpdater pricer epochStart averageLimit epochLength
      \<noteq> Some (Inl (Error ''epochStartBlockNumber must be non-negative.'')) \<and>
   (\<forall>g. NewGasPriceUpdater pricer epochStart averageLimit epochLength = Some (Inr g) \<longrightarrow>
      1 \<le> epochLengthSeconds g \<and>
      (\<forall>ws. UpdateGasPrice_calls ws g \<noteq> None) \<and>
      (\<forall>ws g' w latestBlockNumber. UpdateGasPrice_calls ws g = Some g' \<longrightarrow>
         GetAverageGasPerSecond (epochStartBlockNumber g') latestBlockNumber
           (epochLengthSeconds g') (averageBlockGasLimit g') \<noteq> None))"
proof -
  have iff: "(\<exists>err. NewGasPriceUpdater pricer epochStart averageLimit epochLength = Some (Inl err))
      \<longleftrightarrow> averageLimit < 1 \<or> epochLength < 1"
    by (auto simp: NewGasPriceUpdater_def split: option.splits)
  have never: "NewGasPriceUpdater pricer epochStart averageLimit epochLength
      \<noteq> Some (Inl (Error ''epochStartBlockNumber must be non-negative.''))"
    by (auto simp: NewGasPriceUpdater_def split: option.splits)
  have built: "1 \<le> epochLengthSeconds g \<and>
      (\<forall>ws. UpdateGasPrice_calls ws g \<noteq> None) \<and>
      (\<forall>ws g' w latestBlockNumber. UpdateGasPrice_calls ws g = Some g' \<longrightarrow>
         GetAverageGasPerSecond (epochStartBlockNumber g') latestBlockNumber
           (epochLengthSeconds g') (averageBlockGasLimit g') \<noteq> None)"
    if ok: "NewGasPriceUpdater pricer epochStart averageLimit epochLength = Some (Inr g)" for g
  proof -
    have len: "epochLengthSeconds g = epochLength" and pos: "\<not> epochLength < 1"
      using ok by (auto simp: NewGasPriceUpdater_def split: if_splits option.splits)
    have nz: "epochLengthSeconds g \<noteq> 0"
      using len pos by (simp add: word_less_1)
    have kept: "epochLengthSeconds g' = epochLengthSeconds g"
      if "UpdateGasPrice_calls ws g = Some g'" for ws g'
      using that
    proof (induction ws arbitrary: g)
      case Nil
      then show ?case by simp
    next
      case (Cons w ws)
      then show ?case
        by (auto split: option.splits dest: UpdateGasPrice_epochLength)
    qed
    have "1 \<le> epochLengthSeconds g"
      using len pos leI by blast
    moreover have "\<forall>ws. UpdateGasPrice_calls ws g \<noteq> None"
      using UpdateGasPrice_calls_no_panic [OF nz] by blast
    moreover have "\<forall>ws g' w latestBlockNumber. UpdateGasPrice_calls ws g = Some g' \<longrightarrow>
         GetAverageGasPerSecond (epochStartBlockNumber g') latestBlockNumber
           (epochLengthSeconds g') (averageBlockGasLimit g') \<noteq> None"
      using kept nz by (auto simp: GetAverageGasPerSecond_def)
    ultimately show ?thesis by blast
  qed
  show ?thesis
    using iff never built by blast
qed

theorem NewGasPriceUpdater_guards_division_witness:
  "NewGasPriceUpdater (Some \<lparr>curPrice = 10, floorPrice = 0, maxPercentChangePerEpoch = 1 / 10\<rparr>) 7 20 1
     = Some (Inr \<lparr>gasPricer = \<lparr>curPrice = 10, floorPrice = 0, maxPercentChangePerEpoch = 1 / 10\<rparr>,
                  epochStartBlockNumber = 7, averageBlockGasLimit = 20, epochLengthSeconds = 1\<rparr>) \<and>
   (1::uint64) \<le> epochLengthSeconds
      \<lparr>gasPricer = \<lparr>curPrice = 10, floorPrice = 0, maxPercentChangePerEpoch = 1 / 10\<rparr>,
       epochStartBlockNumber = 7, averageBlockGasLimit = 20, epochLengthSeconds = 1\<rparr> \<and>
   UpdateGasPrice_calls
      [\<lparr>getLatestBlockNumberFn = Inr 17, getTargetGasPerSecond = 100,
         updateL2GasPriceFn = (\<lambda>price. None)\<rparr>]
      \<lparr>gasPricer = \<lparr>curPrice = 10, floorPrice = 0, maxPercentChangePerEpoch = 1 / 10\<rparr>,
       epochStartBlockNumber = 7, averageBlockGasLimit = 20, epochLengthSeconds = 1\<rparr> \<noteq> None \<and>
   (0::uint64) < 1 \<and>
   (\<exists>err. NewGasPriceUpdater
      (Some \<lparr>curPrice = 10, floorPrice = 0, maxPercentChangePerEpoch = 1 / 10\<rparr>) 7 20 0
        = Some (Inl err))"
proof -
  let ?p = "\<lparr>curPrice = 10, floorPrice = 0, maxPercentChangePerEpoch = 1 / 10\<rparr>"
  let ?g = "\<lparr>gasPricer = ?p, epochStartBlockNumber = 7, averageBlockGasLimit = 20,
             epochLengthSeconds = 1\<rparr>"
  have built: "NewGasPriceUpdater (Some ?p) 7 20 1 = Some (Inr ?g)"
    by (simp add: NewGasPriceUpdater_def)
  have zero: "(0::uint64) < 1"
    by simp
  show ?thesis
    using NewGasPriceUpdater_guards_division [of "Some ?p" 7 20 1]
      NewGasPriceUpdater_guards_division [of "Some ?p" 7 20 0] built zero
    by blast
qed

section \<open>Properties of the Pricer and of the significance gate\<close>

lemma clampRatio_bounds: "lo \<le> hi \<Longrightarrow> lo \<le> clampRatio lo hi x \<and> clampRatio lo hi x \<le> hi"
  by (simp add: clampRatio_def)

text \<open>
  C6 (as amended). For a finite observed rate that is not negative, a positive target, a
  current price that is not negative and a \<open>maxPercentChangePerEpoch\<close> that is not
  negative, \<open>CompleteEpoch\<close> succeeds and commits its price, which is at least
  \<open>floorPrice\<close>, at least \<open>currentPrice * (1 - maxPercentChangePerEpoch)\<close>, and at most
  the larger of \<open>floorPrice\<close> and \<open>currentPrice * (1 + maxPercentChangePerEpoch)\<close>: it
  lies within \<open>[floorPrice, currentPrice * (1 + maxPercentChangePerEpoch)]\<close> whenever
  the floor is not above that upper end.
\<close>

theorem CompleteEpoch_bounds:
  assumes "0 \<le> x" and "0 < target" and "0 \<le> curPrice p" and "0 \<le> maxPercentChangePerEpoch p"
  shows "\<exists>newPrice.
           CompleteEpoch target p (Finite x) = Inr (newPrice, p\<lparr>curPrice := newPrice\<rparr>) \<and>
           floorPrice p \<le> newPrice \<and>
           curPrice p * (1 - maxPercentChangePerEpoch p) \<le> newPrice \<and>
           newPrice \<le> max (floorPrice p) (curPrice p * (1 + maxPercentChangePerEpoch p)) \<and>
           (floorPrice p \<le> curPrice p * (1 + maxPercentChangePerEpoch p) \<longrightarrow>
              newPrice \<le> curPrice p * (1 + maxPercentChangePerEpoch p))"
proof -
  let ?m = "maxPercentChangePerEpoch p"
  let ?c = "clampRatio (1 - ?m) (1 + ?m) (x / target)"
  let ?new = "max (curPrice p * ?c) (floorPrice p)"
  have "1 - ?m \<le> 1 + ?m"
    using assms(4) by simp
  then have c: "1 - ?m \<le> ?c" "?c \<le> 1 + ?m"
    using clampRatio_bounds by blast+
  have lower: "curPrice p * (1 - ?m) \<le> curPrice p * ?c"
    using c(1) assms(3) by (rule mult_left_mono)
  have upper: "curPrice p * ?c \<le> curPrice p * (1 + ?m)"
    using c(2) assms(3) by (rule mult_left_mono)
  have result: "CompleteEpoch target p (Finite x) = Inr (?new, p\<lparr>curPrice := ?new\<rparr>)"
    using assms(1,2) by (simp add: CompleteEpoch_def Let_def)
  have "floorPrice p \<le> ?new"
    by simp
  moreover have "curPrice p * (1 - ?m) \<le> ?new"
    using lower by simp
  moreover have "?new \<le> max (floorPrice p) (curPrice p * (1 + ?m))"
    using upper by simp
  moreover have "floorPrice p \<le> curPrice p * (1 + ?m) \<longrightarrow> ?new \<le> curPrice p * (1 + ?m)"
    using upper by simp
  ultimately show ?thesis
    using result by blast
qed

theorem CompleteEpoch_bounds_witness:
  "(0::real) \<le> 200 \<and> (0::real) < 100 \<and>
   0 \<le> curPrice \<lparr>curPrice = 10, floorPrice = 0, maxPercentChangePerEpoch = 1 / 10\<rparr> \<and>
   0 \<le> maxPercentChangePerEpoch \<lparr>curPrice = 10, floorPrice = 0, maxPercentChangePerEpoch = 1 / 10\<rparr> \<and>
   CompleteEpoch 100 \<lparr>curPrice = 10, floorPrice = 0, maxPercentChangePerEpoch = 1 / 10\<rparr> (Finite 200)
     = Inr (11, \<lparr>curPrice = 11, floorPrice = 0, maxPercentChangePerEpoch = 1 / 10\<rparr>) \<and>
   (0::real) \<le> 11 \<and> (10::real) * (1 - 1 / 10) \<le> 11 \<and> (11::real) \<le> 10 * (1 + 1 / 10)"
  using CompleteEpoch_bounds [of 200 100 "\<lparr>curPrice = 10, floorPrice = 0, maxPercentChangePerEpoch = 1 / 10\<rparr>"]
  by (simp add: CompleteEpoch_def clampRatio_def Let_def)

text \<open>
  C6 as stated fails when the floor is above the upper end: from a current price of 10
  with a floor of 100 and a maximal change of one tenth, an observed rate equal to the
  target gives 100, which is above \<open>10 * (1 + 1/10) = 11\<close>.
\<close>

theorem CompleteEpoch_upper_bound_counterexample:
  "(0::real) \<le> 100 \<and> (0::real) < 100 \<and>
   CompleteEpoch 100 \<lparr>curPrice = 10, floorPrice = 100, maxPercentChangePerEpoch = 1 / 10\<rparr> (Finite 100)
     = Inr (100, \<lparr>curPrice = 100, floorPrice = 100, maxPercentChangePerEpoch = 1 / 10\<rparr>) \<and>
   \<not> (100::real) \<le> 10 * (1 + 1 / 10)"
  by (simp add: CompleteEpoch_def clampRatio_def Let_def)



section \<open>Properties of the oracle process\<close>

text \<open>
  C7 (as amended). When the Pricer's \<open>CompleteEpoch\<close> returns an error during a tick,
  \<open>UpdateGasPrice\<close> returns that error and leaves the updater as it was; the loop logs
  \<open>cannot update gas price\<close> at the error level and goes on to the next event: the
  events that follow are handled from the state of before the tick, with the two log
  entries added.
\<close>

theorem Loop_continues_after_pricer_error:
  assumes "getLatestBlockNumberFn w = Inr latestBlockNumber"
    and "epochStartBlockNumber (gasPriceUpdater s) \<le> latestBlockNumber"
    and "GetAverageGasPerSecond (epochStartBlockNumber (gasPriceUpdater s)) latestBlockNumber
           (epochLengthSeconds (gasPriceUpdater s)) (averageBlockGasLimit (gasPriceUpdater s))
         = Some averageGasPerSecond"
    and "CompleteEpoch (getTargetGasPerSecond w) (gasPricer (gasPriceUpdater s)) averageGasPerSecond
         = Inl err"
  shows "UpdateGasPrice w (gasPriceUpdater s) = Some (Some err, gasPriceUpdater s) \<and>
         Loop (TimerFired (Inr l2GasPrice) w # evs) s =
           Loop evs (s\<lparr>logged := logged s @ [LogDebug ''polling'', LogError ''cannot update gas price'']\<rparr>)"
proof -
  have update: "UpdateGasPrice w (gasPriceUpdater s) = Some (Some err, gasPriceUpdater s)"
    using assms by (simp add: UpdateGasPrice_def leD)
  have "Loop_select (TimerFired (Inr l2GasPrice) w) s =
      Some (s\<lparr>logged := logged s @ [LogDebug ''polling'', LogError ''cannot update gas price'']\<rparr>)"
    using update by (simp add: Loop_select_def Let_def)
  then show ?thesis
    using update by simp
qed

theorem Loop_continues_after_pricer_error_witness:
  "getLatestBlockNumberFn \<lparr>getLatestBlockNumberFn = Inr 17, getTargetGasPerSecond = 0,
      updateL2GasPriceFn = (\<lambda>price. None)\<rparr> = Inr (17::uint64) \<and>
   (7::uint64) \<le> 17 \<and>
   GetAverageGasPerSecond 7 17 1 20 = Some (Finite 200) \<and>
   CompleteEpoch 0 \<lparr>curPrice = 10, floorPrice = 0, maxPercentChangePerEpoch = 1 / 10\<rparr> (Finite 200)
     = Inl InvalidConfiguration \<and>
   Loop [TimerFired (Inr 10) \<lparr>getLatestBlockNumberFn = Inr 17, getTargetGasPerSecond = 0,
           updateL2GasPriceFn = (\<lambda>price. None)\<rparr>]
     \<lparr>gasPriceUpdater =
        \<lparr>gasPricer = \<lparr>curPrice = 10, floorPrice = 0, maxPercentChangePerEpoch = 1 / 10\<rparr>,
         epochStartBlockNumber = 7, averageBlockGasLimit = 20, epochLengthSeconds = 1\<rparr>,
      stopClosed = False, logged = []\<rparr>
   = Some
     \<lparr>gasPriceUpdater =
        \<lparr>gasPricer = \<lparr>curPrice = 10, floorPrice = 0, maxPercentChangePerEpoch = 1 / 10\<rparr>,
         epochStartBlockNumber = 7, averageBlockGasLimit = 20, epochLengthSeconds = 1\<rparr>,
      stopClosed = False,
      logged = [LogDebug ''polling'', LogError ''cannot update gas price'']\<rparr>"
proof -
  let ?w = "\<lparr>getLatestBlockNumberFn = Inr (17::uint64), getTargetGasPerSecond = 0,
      updateL2GasPriceFn = (\<lambda>price. None)\<rparr>"
  let ?g = "\<lparr>gasPricer = \<lparr>curPrice = 10, floorPrice = 0, maxPercentChangePerEpoch = 1 / 10\<rparr>,
         epochStartBlockNumber = 7, averageBlockGasLimit = 20, epochLengthSeconds = 1\<rparr>"
  let ?s = "\<lparr>gasPriceUpdater = ?g, stopClosed = False, logged = []\<rparr>"
  have latest: "getLatestBlockNumberFn ?w = Inr 17"
    by simp
  have above: "epochStartBlockNumber (gasPriceUpdater ?s) \<le> 17"
    by simp
  have rate: "GetAverageGasPerSecond (epochStartBlockNumber (gasPriceUpdater ?s)) 17
      (epochLengthSeconds (gasPriceUpdater ?s)) (averageBlockGasLimit (gasPriceUpdater ?s))
      = Some (Finite 200)"
    by (simp add: GetAverageGasPerSecond_def float64_of_nat_exact)
  have price: "CompleteEpoch (getTargetGasPerSecond ?w) (gasPricer (gasPriceUpdater ?s)) (Finite 200)
      = Inl InvalidConfiguration"
    by (simp add: CompleteEpoch_def)
  show ?thesis
    using Loop_continues_after_pricer_error [OF latest above rate price, of 10 "[]"]
      latest above rate price
    by simp
qed

text \<open>
  C7 as stated fails: a tick in which \<open>CompleteEpoch\<close> fails (the target is 0) is
  followed by a tick that the loop handles as usual, advancing the checkpoint to 19 and
  the price to 11.
\<close>

theorem Loop_stops_on_pricer_error_counterexample:
  "CompleteEpoch 0 \<lparr>curPrice = 10, floorPrice = 0, maxPercentChangePerEpoch = 1 / 10\<rparr> (Finite 200)
     = Inl InvalidConfiguration \<and>
   Loop [TimerFired (Inr 10) \<lparr>getLatestBlockNumberFn = Inr 17, getTargetGasPerSecond = 0,
           updateL2GasPriceFn = (\<lambda>price. None)\<rparr>,
         TimerFired (Inr 10) \<lparr>getLatestBlockNumberFn = Inr 19, getTargetGasPerSecond = 100,
           updateL2GasPriceFn = (\<lambda>price. None)\<rparr>]
     \<lparr>gasPriceUpdater =
        \<lparr>gasPricer = \<lparr>curPrice = 10, floorPrice = 0, maxPercentChangePerEpoch = 1 / 10\<rparr>,
         epochStartBlockNumber = 7, averageBlockGasLimit = 20, epochLengthSeconds = 1\<rparr>,
      stopClosed = False, logged = []\<rparr>
   = Some
     \<lparr>gasPriceUpdater =
        \<lparr>gasPricer = \<lparr>curPrice = 11, floorPrice = 0, maxPercentChangePerEpoch = 1 / 10\<rparr>,
         epochStartBlockNumber = 19, averageBlockGasLimit = 20, epochLengthSeconds = 1\<rparr>,
      stopClosed = False,
      logged = [LogDebug ''polling'', LogError ''cannot update gas price'',
                LogDebug ''polling'', LogInfo ''Updated gas price'']\<rparr>"
  by (simp add: Loop_select_def UpdateGasPrice_def GetAverageGasPerSecond_def
      float64_of_nat_exact CompleteEpoch_def clampRatio_def Let_def)




section \<open>Properties of the configuration\<close>

lemma NewConfig_fatal:
  "(\<exists>crit. NewConfig HexToAddress HexToECDSA ctx = Inl crit) \<longleftrightarrow>
      target_gas_per_second ctx = None \<or> max_percent_change_per_epoch ctx = None \<or>
      average_block_gas_limit_per_epoch ctx = None \<or> epoch_length_seconds ctx = None"
  unfolding NewConfig_def Let_def
  by (cases "target_gas_per_second ctx"; cases "max_percent_change_per_epoch ctx";
      cases "average_block_gas_limit_per_epoch ctx"; cases "epoch_length_seconds ctx") simp_all

lemma NewConfig_fields:
  assumes "target_gas_per_second ctx = Some target"
    and "max_percent_change_per_epoch ctx = Some maxChange"
    and "average_block_gas_limit_per_epoch ctx = Some averageLimit"
    and "epoch_length_seconds ctx = Some epochLength"
  shows "NewConfig HexToAddress HexToECDSA ctx = Inr
     \<lparr>chainID = map_option unat (chain_id ctx),
      ethereumHttpUrl = (case ethereum_http_url ctx of None \<Rightarrow> [] | Some url \<Rightarrow> url),
      gasPriceOracleAddress =
        (case gas_price_oracle_address ctx of
           None \<Rightarrow> HexToAddress ''0x420000000000000000000000000000000000000F''
         | Some addr \<Rightarrow> HexToAddress addr),
      privateKey =
        (case private_key ctx of
           None \<Rightarrow> None
         | Some hex \<Rightarrow>
             (case HexToECDSA (if take 2 hex = ''0x'' then drop 2 hex else hex) of
                Inl err \<Rightarrow> None
              | Inr key \<Rightarrow> Some key)),
      gasPrice = map_option unat (transaction_gas_price ctx),
      Config.floorPrice = (case floor_price ctx of None \<Rightarrow> 0 | Some v \<Rightarrow> v),
      targetGasPerSecond = target,
      Config.maxPercentChangePerEpoch = maxChange,
      averageBlockGasLimitPerEpoch = averageLimit,
      Config.epochLengthSeconds = epochLength,
      significantFactor = (case significant_factor ctx of None \<Rightarrow> 0.05 | Some v \<Rightarrow> v)\<rparr>"
  unfolding NewConfig_def assms
  apply (cases "ethereum_http_url ctx"; cases "chain_id ctx"; cases "gas_price_oracle_address ctx";
      cases "transaction_gas_price ctx"; cases "floor_price ctx"; cases "significant_factor ctx";
      cases "private_key ctx")
  apply (simp_all add: Let_def split: sum.split)
  done

text \<open>
  C9 (as amended). \<open>NewConfig\<close> ends the process with a fatal error exactly when the
  target rate, the maximal percent change per epoch, the average per-block capacity or
  the epoch length is absent. The floor price and the significance factor are not
  required: when \<open>NewConfig\<close> returns, the floor price is the given one or 0, the
  significance factor is the given one or 0.05, and the four required values are the
  given ones.
\<close>

theorem NewConfig_required_options:
  "((\<exists>crit. NewConfig HexToAddress HexToECDSA ctx = Inl crit) \<longleftrightarrow>
      target_gas_per_second ctx = None \<or> max_percent_change_per_epoch ctx = None \<or>
      average_block_gas_limit_per_epoch ctx = None \<or> epoch_length_seconds ctx = None) \<and>
   (\<forall>cfg. NewConfig HexToAddress HexToECDSA ctx = Inr cfg \<longrightarrow>
      Config.floorPrice cfg = (case floor_price ctx of None \<Rightarrow> 0 | Some v \<Rightarrow> v) \<and>
      significantFactor cfg = (case significant_factor ctx of None \<Rightarrow> 0.05 | Some v \<Rightarrow> v) \<and>
      Some (targetGasPerSecond cfg) = target_gas_per_second ctx \<and>
      Some (Config.maxPercentChangePerEpoch cfg) = max_percent_change_per_epoch ctx \<and>
      Some (averageBlockGasLimitPerEpoch cfg) = average_block_gas_limit_per_epoch ctx \<and>
      Some (Config.epochLengthSeconds cfg) = epoch_length_seconds ctx)"
proof -
  have returned: "Config.floorPrice cfg = (case floor_price ctx of None \<Rightarrow> 0 | Some v \<Rightarrow> v) \<and>
      significantFactor cfg = (case significant_factor ctx of None \<Rightarrow> 0.05 | Some v \<Rightarrow> v) \<and>
      Some (targetGasPerSecond cfg) = target_gas_per_second ctx \<and>
      Some (Config.maxPercentChangePerEpoch cfg) = max_percent_change_per_epoch ctx \<and>
      Some (averageBlockGasLimitPerEpoch cfg) = average_block_gas_limit_per_epoch ctx \<and>
      Some (Config.epochLengthSeconds cfg) = epoch_length_seconds ctx"
    if ok: "NewConfig HexToAddress HexToECDSA ctx = Inr cfg" for cfg
  proof -
    have "\<not> (\<exists>crit. NewConfig HexToAddress HexToECDSA ctx = Inl crit)"
      using ok by simp
    then obtain target maxChange averageLimit epochLength
      where req: "target_gas_per_second ctx = Some target"
        "max_percent_change_per_epoch ctx = Some maxChange"
        "average_block_gas_limit_per_epoch ctx = Some averageLimit"
        "epoch_length_seconds ctx = Some epochLength"
      unfolding NewConfig_fatal by auto
    show ?thesis
      using ok unfolding NewConfig_fields [OF req] by (auto simp: req)
  qed
  show ?thesis
    using NewConfig_fatal [of HexToAddress HexToECDSA ctx] returned by blast
qed

theorem NewConfig_required_options_witness:
  "(\<exists>crit. NewConfig (\<lambda>hex. 15) (\<lambda>hex. Inr 1)
      \<lparr>ethereum_http_url = None, chain_id = Some 10, gas_price_oracle_address = None,
       private_key = Some ''0x01'', transaction_gas_price = None, floor_price = Some 1,
       target_gas_per_second = None, max_percent_change_per_epoch = Some (1 / 10),
       average_block_gas_limit_per_epoch = Some 11000000, epoch_length_seconds = Some 10,
       significant_factor = None\<rparr> = Inl crit) \<and>
   NewConfig (\<lambda>hex. 15) (\<lambda>hex. Inr 1)
      \<lparr>ethereum_http_url = None, chain_id = Some 10, gas_price_oracle_address = None,
       private_key = Some ''0x01'', transaction_gas_price = None, floor_price = None,
       target_gas_per_second = Some 100, max_percent_change_per_epoch = Some (1 / 10),
       average_block_gas_limit_per_epoch = Some 11000000, epoch_length_seconds = Some 10,
       significant_factor = None\<rparr>
   = Inr \<lparr>chainID = Some 10, ethereumHttpUrl = [], gasPriceOracleAddress = 15,
       privateKey = Some 1, gasPrice = None, Config.floorPrice = 0, targetGasPerSecond = 100,
       Config.maxPercentChangePerEpoch = 1 / 10, averageBlockGasLimitPerEpoch = 11000000,
       Config.epochLengthSeconds = 10, significantFactor = 5 / 100\<rparr>"
proof -
  let ?missing = "\<lparr>ethereum_http_url = None, chain_id = Some (10::uint64),
       gas_price_oracle_address = None,
       private_key = Some ''0x01'', transaction_gas_price = None, floor_price = Some (1::real),
       target_gas_per_second = None, max_percent_change_per_epoch = Some (1 / 10 :: real),
       average_block_gas_limit_per_epoch = Some (11000000::real),
       epoch_length_seconds = Some (10::real), significant_factor = None\<rparr>"
  let ?given = "\<lparr>ethereum_http_url = None, chain_id = Some (10::uint64),
       gas_price_oracle_address = None,
       private_key = Some ''0x01'', transaction_gas_price = None, floor_price = None,
       target_gas_per_second = Some (100::real), max_percent_change_per_epoch = Some (1 / 10 :: real),
       average_block_gas_limit_per_epoch = Some (11000000::real),
       epoch_length_seconds = Some (10::real), significant_factor = None\<rparr>"
  have fatal: "\<exists>crit. NewConfig (\<lambda>hex. 15) (\<lambda>hex. Inr 1) ?missing = Inl crit"
    using NewConfig_required_options [of "\<lambda>hex. 15" "\<lambda>hex. Inr 1" ?missing] by simp
  have returned: "NewConfig (\<lambda>hex. 15) (\<lambda>hex. Inr 1) ?given
      = Inr \<lparr>chainID = Some 10, ethereumHttpUrl = [], gasPriceOracleAddress = 15,
       privateKey = Some 1, gasPrice = None, Config.floorPrice = 0, targetGasPerSecond = 100,
       Config.maxPercentChangePerEpoch = 1 / 10, averageBlockGasLimitPerEpoch = 11000000,
       Config.epochLengthSeconds = 10, significantFactor = 5 / 100\<rparr>"
    by (simp add: NewConfig_def)
  show ?thesis
    using fatal returned by simp
qed

text \<open>
  C9 as stated fails: with the floor price absent and the four required options given,
  \<open>NewConfig\<close> returns a configuration, with a floor price of 0.
\<close>

theorem NewConfig_floor_price_counterexample:
  "floor_price
      \<lparr>ethereum_http_url = None, chain_id = None, gas_price_oracle_address = None,
       private_key = None, transaction_gas_price = None, floor_price = None,
       target_gas_per_second = Some 100, max_percent_change_per_epoch = Some (1 / 10),
       average_block_gas_limit_per_epoch = Some 11000000, epoch_length_seconds = Some 10,
       significant_factor = None\<rparr> = None \<and>
   NewConfig (\<lambda>hex. 15) (\<lambda>hex. Inr 1)
      \<lparr>ethereum_http_url = None, chain_id = None, gas_price_oracle_address = None,
       private_key = None, transaction_gas_price = None, floor_price = None,
       target_gas_per_second = Some 100, max_percent_change_per_epoch = Some (1 / 10),
       average_block_gas_limit_per_epoch = Some 11000000, epoch_length_seconds = Some 10,
       significant_factor = None\<rparr>
   = Inr \<lparr>chainID = None, ethereumHttpUrl = [], gasPriceOracleAddress = 15,
       privateKey = None, gasPrice = None, Config.floorPrice = 0, targetGasPerSecond = 100,
       Config.maxPercentChangePerEpoch = 1 / 10, averageBlockGasLimitPerEpoch = 11000000,
       Config.epochLengthSeconds = 10, significantFactor = 5 / 100\<rparr>"
  by (simp add: NewConfig_def)

end
